theory Spec2Isabelle
  imports Complex_Main
begin

section \<open>Carbon-footprint simulation: the data model\<close>

text \<open>
  The program simulates, for each of four activities and each simulated day, an emission
  figure, a reduction potential, an environmental cost and an impact category, and
  aggregates several runs under a policy scenario.

  Python floats are idealised as exact reals: \<open>+\<close>, \<open>*\<close> and \<open>round\<close> are the
  mathematical operations, without binary rounding error. The strings that name
  activities, categories and scenarios are closed sets in the source (a literal list, the
  three branches of a chain of comparisons, the three options of a select box) and are
  modelled as datatypes.
\<close>

datatype actividad = Transporte | Energia | Residuos | Agua

datatype categoria = Bajo | Medio | Alto

datatype escenario = Base | Moderadas | Fuertes

datatype error = ValueError

text \<open>
  One row of the data frame that \<open>simular_huella_carbono\<close> returns (five columns), and
  one row of the aggregated frame, which has the column \<open>Corrida\<close> in addition.
\<close>

record fila =
  Actividad :: actividad
  Emisiones_tCO2eq :: real
  Reduccion_Potencial :: real
  Costo_Ambiental_USD :: real
  Categoria_Impacto :: categoria

record fila_corrida = fila +
  Corrida :: int

section \<open>Library functions the program calls\<close>

text \<open>
  Python's \<open>round(x, n)\<close> on a float rounds to the nearest multiple of \<open>10^-n\<close>, a
  tie going to the even neighbour.
\<close>

definition round_half_even :: "real \<Rightarrow> int" where
  "round_half_even x =
     (let f = \<lfloor>x\<rfloor>; d = x - of_int f
      in if d < 1 / 2 then f
         else if 1 / 2 < d then f + 1
         else if even f then f else f + 1)"

definition py_round :: "real \<Rightarrow> nat \<Rightarrow> real" where
  "py_round x n = of_int (round_half_even (x * 10 ^ n)) / 10 ^ n"

text \<open>\<open>range(n)\<close>: the integers from 0 up to \<open>n - 1\<close>, none when \<open>n \<le> 0\<close>.\<close>

definition py_range :: "int \<Rightarrow> int list" where
  "py_range n = map int [0..<nat n]"

text \<open>
  The module \<open>random\<close> owns one process-wide generator. Its algorithm is not part of
  the program, so it is a parameter: \<open>random_seed\<close> is the state that \<open>random.seed(s)\<close>
  installs, \<open>random_random\<close> is one call of \<open>random.random()\<close>, returning the draw and
  the next state. The state of the generator is passed through every function that draws.
\<close>

record 'g random_module =
  random_seed :: "int \<Rightarrow> 'g"
  random_random :: "'g \<Rightarrow> real \<times> 'g"

text \<open>\<open>random.uniform(a, b)\<close> is \<open>a + (b - a) * random()\<close>.\<close>

definition random_uniform :: "'g random_module \<Rightarrow> real \<Rightarrow> real \<Rightarrow> 'g \<Rightarrow> real \<times> 'g" where
  "random_uniform R a b g = (case random_random R g of (u, g') \<Rightarrow> (a + (b - a) * u, g'))"

text \<open>
  \<open>pd.concat\<close> of a list of frames: the rows of the frames in order; it raises
  \<open>ValueError\<close> (no objects to concatenate) on the empty list.
\<close>

definition pd_concat :: "'a list list \<Rightarrow> error + 'a list" where
  "pd_concat dfs = (if dfs = [] then Inl ValueError else Inr (concat dfs))"

section \<open>The simulation of one run\<close>

text \<open>
  The body of the inner loop, in three parts: the two draws of the activity's branch
  (lines 20 to 31), the cost and the category (lines 33 to 40), and the values appended to
  the five column lists (lines 42 to 46).
\<close>

definition muestreo :: "'g random_module \<Rightarrow> actividad \<Rightarrow> 'g \<Rightarrow> (real \<times> real) \<times> 'g" where
  "muestreo R act g =
     (if act = Transporte then
        (case random_uniform R 30 100 g of (emision, g1) \<Rightarrow>
         case random_uniform R 20 40 g1 of (reduccion, g2) \<Rightarrow> ((emision, reduccion), g2))
      else if act = Energia then
        (case random_uniform R 50 150 g of (emision, g1) \<Rightarrow>
         case random_uniform R 30 60 g1 of (reduccion, g2) \<Rightarrow> ((emision, reduccion), g2))
      else if act = Residuos then
        (case random_uniform R 10 60 g of (emision, g1) \<Rightarrow>
         case random_uniform R 10 40 g1 of (reduccion, g2) \<Rightarrow> ((emision, reduccion), g2))
      else
        (case random_uniform R 5 30 g of (emision, g1) \<Rightarrow>
         case random_uniform R 5 20 g1 of (reduccion, g2) \<Rightarrow> ((emision, reduccion), g2)))"

definition categoria_de :: "real \<Rightarrow> categoria" where
  "categoria_de emision =
     (if emision < 40 then Bajo else if emision \<le> 90 then Medio else Alto)"

definition fila_de :: "actividad \<Rightarrow> real \<Rightarrow> real \<Rightarrow> fila" where
  "fila_de act emision reduccion =
     (let costo = emision * 15;
          categoria = categoria_de emision
      in \<lparr>Actividad = act,
          Emisiones_tCO2eq = py_round emision 3,
          Reduccion_Potencial = py_round reduccion 2,
          Costo_Ambiental_USD = py_round costo 2,
          Categoria_Impacto = categoria\<rparr>)"

definition iteracion :: "'g random_module \<Rightarrow> actividad \<Rightarrow> 'g \<Rightarrow> fila \<times> 'g" where
  "iteracion R act g =
     (case muestreo R act g of ((emision, reduccion), g') \<Rightarrow> (fila_de act emision reduccion, g'))"

text \<open>\<open>for i in range(dias)\<close>: one row for each day, in order.\<close>

fun bucle_dias :: "'g random_module \<Rightarrow> actividad \<Rightarrow> int list \<Rightarrow> 'g \<Rightarrow> fila list \<times> 'g" where
  "bucle_dias R act [] g = ([], g)"
| "bucle_dias R act (i # is) g =
     (case iteracion R act g of (f, g1) \<Rightarrow>
      case bucle_dias R act is g1 of (fs, g2) \<Rightarrow> (f # fs, g2))"

text \<open>\<open>for actividad in actividades\<close>: the rows of each activity, in order.\<close>

fun bucle_actividades ::
  "'g random_module \<Rightarrow> actividad list \<Rightarrow> int \<Rightarrow> 'g \<Rightarrow> fila list \<times> 'g" where
  "bucle_actividades R [] dias g = ([], g)"
| "bucle_actividades R (act # acts) dias g =
     (case bucle_dias R act (py_range dias) g of (fs, g1) \<Rightarrow>
      case bucle_actividades R acts dias g1 of (hs, g2) \<Rightarrow> (fs @ hs, g2))"

definition actividades :: "actividad list" where
  "actividades = [Transporte, Energia, Residuos, Agua]"

text \<open>
  \<open>simular_huella_carbono(dias, seed)\<close>: the generator is seeded only when a seed is
  given and is not zero; otherwise the draws continue from the state the generator is
  in. The result is the frame and the state the generator is left in.
\<close>

definition simular_huella_carbono ::
  "'g random_module \<Rightarrow> int \<Rightarrow> int option \<Rightarrow> 'g \<Rightarrow> fila list \<times> 'g" where
  "simular_huella_carbono R dias seed g =
     bucle_actividades R actividades dias
       (case seed of None \<Rightarrow> g | Some s \<Rightarrow> if s \<noteq> 0 then random_seed R s else g)"

section \<open>Scenarios and the aggregation of runs\<close>

text \<open>
  The scenario is applied to a run's frame column by column (lines 90 to 95): the
  emission column is scaled first, then the cost column is assigned from the new emission
  column. The baseline scenario takes neither branch.
\<close>

definition aplicar_escenario :: "escenario \<Rightarrow> fila list \<Rightarrow> fila list" where
  "aplicar_escenario esc df_run =
     (if esc = Moderadas then
        (let df1 = map (\<lambda>f. f\<lparr>Emisiones_tCO2eq := Emisiones_tCO2eq f * 0.85\<rparr>) df_run
         in map (\<lambda>f. f\<lparr>Costo_Ambiental_USD := Emisiones_tCO2eq f * 15\<rparr>) df1)
      else if esc = Fuertes then
        (let df1 = map (\<lambda>f. f\<lparr>Emisiones_tCO2eq := Emisiones_tCO2eq f * 0.65\<rparr>) df_run
         in map (\<lambda>f. f\<lparr>Costo_Ambiental_USD := Emisiones_tCO2eq f * 15\<rparr>) df1)
      else df_run)"

text \<open>\<open>df_run['Corrida'] = run + 1\<close>: every row of the frame gets the same run number.\<close>

definition asignar_corrida :: "int \<Rightarrow> fila list \<Rightarrow> fila_corrida list" where
  "asignar_corrida k df_run =
     map (\<lambda>f. \<lparr>Actividad = Actividad f,
               Emisiones_tCO2eq = Emisiones_tCO2eq f,
               Reduccion_Potencial = Reduccion_Potencial f,
               Costo_Ambiental_USD = Costo_Ambiental_USD f,
               Categoria_Impacto = Categoria_Impacto f,
               Corrida = k\<rparr>) df_run"

text \<open>
  \<open>for run in range(num_corridas)\<close> (lines 86 to 97): the frames appended to
  \<open>lista_dfs\<close>, in order, and the state the generator is left in.
\<close>

fun bucle_corridas ::
  "'g random_module \<Rightarrow> int \<Rightarrow> int \<Rightarrow> escenario \<Rightarrow> int list \<Rightarrow> 'g
     \<Rightarrow> fila_corrida list list \<times> 'g" where
  "bucle_corridas R dias seed esc [] g = ([], g)"
| "bucle_corridas R dias seed esc (run # runs) g =
     (let s = (if seed \<noteq> 0 then Some (seed + run) else None)
      in case simular_huella_carbono R dias s g of (df_run, g1) \<Rightarrow>
         case bucle_corridas R dias seed esc runs g1 of (dfs, g2) \<Rightarrow>
           (asignar_corrida (run + 1) (aplicar_escenario esc df_run) # dfs, g2))"


definition lista_dfs ::
  "'g random_module \<Rightarrow> int \<Rightarrow> int \<Rightarrow> int \<Rightarrow> escenario \<Rightarrow> 'g \<Rightarrow> fila_corrida list list" where
  "lista_dfs R dias seed num_corridas esc g =
     fst (bucle_corridas R dias seed esc (py_range num_corridas) g)"

text \<open>
  The block run when the button is pressed (lines 83 to 99): \<open>df_global\<close> is the
  concatenation of the runs' frames, or the error that \<open>pd.concat\<close> raises.
\<close>

definition df_global ::
  "'g random_module \<Rightarrow> int \<Rightarrow> int \<Rightarrow> int \<Rightarrow> escenario \<Rightarrow> 'g \<Rightarrow> error + fila_corrida list" where
  "df_global R dias seed num_corridas esc g =
     pd_concat (lista_dfs R dias seed num_corridas esc g)"

section \<open>A concrete generator\<close>

text \<open>
  A small linear congruential generator, used to run the program on concrete inputs:
  the draw is the state, reduced below one million, divided by one million.
\<close>

definition lcg :: "int random_module" where
  "lcg = \<lparr>random_seed = (\<lambda>s. \<bar>s\<bar> mod 1000000),
          random_random =
            (\<lambda>g. (of_int (g mod 1000000) / 1000000, (g * 421 + 17) mod 1000000))\<rparr>"

section \<open>The rows of one run\<close>

lemma length_py_range: "length (py_range n) = nat n"
  by (simp add: py_range_def)

lemma iteracion_fila:
  "fst (iteracion R act g) =
     fila_de act (fst (fst (muestreo R act g))) (snd (fst (muestreo R act g)))"
  by (simp add: iteracion_def split: prod.splits)

lemma Actividad_fila_de: "Actividad (fila_de act e r) = act"
  by (simp add: fila_de_def Let_def)

lemma Actividad_iteracion: "Actividad (fst (iteracion R act g)) = act"
  by (simp add: iteracion_fila Actividad_fila_de)

lemma Actividad_bucle_dias:
  "map Actividad (fst (bucle_dias R act is g)) = replicate (length is) act"
proof (induction "is" arbitrary: g)
  case Nil
  show ?case by simp
next
  case (Cons i "is")
  obtain f g1 where it: "iteracion R act g = (f, g1)" by (cases "iteracion R act g")
  obtain fs g2 where rest: "bucle_dias R act is g1 = (fs, g2)" by (cases "bucle_dias R act is g1")
  have "Actividad f = act" using Actividad_iteracion [of R act g] it by simp
  moreover have "map Actividad fs = replicate (length is) act"
    using Cons.IH [of g1] rest by simp
  ultimately show ?case using it rest by simp
qed

lemma Actividad_bucle_actividades:
  "map Actividad (fst (bucle_actividades R acts dias g)) =
     concat (map (replicate (nat dias)) acts)"
proof (induction acts arbitrary: g)
  case Nil
  show ?case by simp
next
  case (Cons act acts)
  obtain fs g1 where d: "bucle_dias R act (py_range dias) g = (fs, g1)"
    by (cases "bucle_dias R act (py_range dias) g")
  obtain hs g2 where r: "bucle_actividades R acts dias g1 = (hs, g2)"
    by (cases "bucle_actividades R acts dias g1")
  have "map Actividad fs = replicate (nat dias) act"
    using Actividad_bucle_dias [of R act "py_range dias" g] d by (simp add: length_py_range)
  moreover have "map Actividad hs = concat (map (replicate (nat dias)) acts)"
    using Cons.IH [of g1] r by simp
  ultimately show ?case using d r by simp
qed

lemma Actividad_simular:
  "map Actividad (fst (simular_huella_carbono R dias seed g)) =
     concat (map (replicate (nat dias)) actividades)"
  by (simp only: simular_huella_carbono_def Actividad_bucle_actividades)

lemma length_simular: "length (fst (simular_huella_carbono R dias seed g)) = 4 * nat dias"
proof -
  have "length (map Actividad (fst (simular_huella_carbono R dias seed g))) = 4 * nat dias"
    by (simp only: Actividad_simular) (simp add: actividades_def)
  then show ?thesis by simp
qed

lemma cuenta_por_columna:
  "length (filter (\<lambda>f. Actividad f = act) df) =
     length (filter (\<lambda>a. a = act) (map Actividad df))"
  by (induction df) auto

text \<open>
  Claim C5. A single run of \<open>dias\<close> days produces \<open>4 * dias\<close> rows, \<open>dias\<close> of them for
  each of the four activities, in the order of the activity list and, within an activity,
  of the days. The number of iterations of \<open>range(dias)\<close> is \<open>nat dias\<close>, which is
  \<open>dias\<close> itself for every positive \<open>dias\<close>.
\<close>

theorem filas_por_actividad:
  "map Actividad (fst (simular_huella_carbono R dias seed g)) =
     replicate (nat dias) Transporte @ replicate (nat dias) Energia @
     replicate (nat dias) Residuos @ replicate (nat dias) Agua
   \<and> length (fst (simular_huella_carbono R dias seed g)) = 4 * nat dias
   \<and> (\<forall>act. length (filter (\<lambda>f. Actividad f = act)
                  (fst (simular_huella_carbono R dias seed g))) = nat dias)"
proof -
  let ?df = "fst (simular_huella_carbono R dias seed g)"
  have col: "map Actividad ?df =
     replicate (nat dias) Transporte @ replicate (nat dias) Energia @
     replicate (nat dias) Residuos @ replicate (nat dias) Agua"
    by (simp add: Actividad_simular actividades_def)
  have cnt: "length (filter (\<lambda>f. Actividad f = act) ?df) = nat dias" for act
    by (cases act) (simp_all add: cuenta_por_columna col)
  from col length_simular [of R dias seed g] cnt show ?thesis by blast
qed

section \<open>The scenario adjustment\<close>

text \<open>
  Claim C6. On every frame \<open>D\<close> of generated rows the baseline scenario returns \<open>D\<close>
  itself, and the two policies return a frame of the same length whose emission column
  is the emission column of \<open>D\<close>, row by row, times 0.85 and times 0.65.
\<close>

theorem escenario_escala_emisiones:
  "aplicar_escenario Base D = D
   \<and> map Emisiones_tCO2eq (aplicar_escenario Moderadas D) =
       map (\<lambda>f. 0.85 * Emisiones_tCO2eq f) D
   \<and> map Emisiones_tCO2eq (aplicar_escenario Fuertes D) =
       map (\<lambda>f. 0.65 * Emisiones_tCO2eq f) D"
  by (simp add: aplicar_escenario_def Let_def)

text \<open>
  Claim C9. Under every scenario the adjusted frame has the activity, the reduction
  potential and the impact category of the generated frame, row by row: the adjustment
  assigns the emission and the cost columns only.
\<close>

theorem escenario_conserva_columnas:
  "map Actividad (aplicar_escenario esc D) = map Actividad D
   \<and> map Reduccion_Potencial (aplicar_escenario esc D) = map Reduccion_Potencial D
   \<and> map Categoria_Impacto (aplicar_escenario esc D) = map Categoria_Impacto D"
  by (cases esc) (simp_all add: aplicar_escenario_def Let_def)

section \<open>The aggregation of runs\<close>


lemma length_aplicar_escenario: "length (aplicar_escenario esc df) = length df"
  by (simp add: aplicar_escenario_def Let_def)

lemma Corrida_asignar_corrida: "map Corrida (asignar_corrida k df) = replicate (length df) k"
  by (simp add: asignar_corrida_def comp_def map_replicate_const)



lemma bucle_corridas_Cons:
  "bucle_corridas R dias seed esc (run # runs) g =
     (asignar_corrida (run + 1)
        (aplicar_escenario esc
           (fst (simular_huella_carbono R dias (if seed \<noteq> 0 then Some (seed + run) else None) g)))
      # fst (bucle_corridas R dias seed esc runs
             (snd (simular_huella_carbono R dias (if seed \<noteq> 0 then Some (seed + run) else None) g))),
      snd (bucle_corridas R dias seed esc runs
             (snd (simular_huella_carbono R dias (if seed \<noteq> 0 then Some (seed + run) else None) g))))"
  by (simp add: Let_def split: prod.splits)

lemma length_bucle_corridas:
  "length (fst (bucle_corridas R dias seed esc runs g)) = length runs"
  by (induction runs arbitrary: g) (simp_all add: bucle_corridas_Cons del: bucle_corridas.simps(2))

lemma Corrida_bucle_corridas:
  "map (map Corrida) (fst (bucle_corridas R dias seed esc runs g)) =
     map (\<lambda>run. replicate (4 * nat dias) (run + 1)) runs"
  by (induction runs arbitrary: g)
     (simp_all add: bucle_corridas_Cons Corrida_asignar_corrida length_aplicar_escenario
        length_simular del: bucle_corridas.simps(2))

lemma py_range_upto: "map (\<lambda>run. run + 1) (py_range n) = [1..n]"
proof -
  have "map (\<lambda>i. int i + 1) [0..<m] = [1..int m]" for m
  proof (induction m)
    case 0
    show ?case by simp
  next
    case (Suc m)
    have "[1..int (Suc m)] = [1..int m] @ [int m + 1]"
      using upto_rec2 [of 1 "int (Suc m)"] by simp
    with Suc show ?case by simp
  qed
  from this [of "nat n"] show ?thesis
    by (cases "0 \<le> n") (simp_all add: py_range_def comp_def)
qed

lemma length_lista_dfs: "length (lista_dfs R dias seed n esc g) = nat n"
  by (simp add: lista_dfs_def length_bucle_corridas length_py_range)

lemma Corrida_lista_dfs:
  "map (map Corrida) (lista_dfs R dias seed n esc g) = map (replicate (4 * nat dias)) [1..n]"
proof -
  have "map (map Corrida) (lista_dfs R dias seed n esc g) =
          map (replicate (4 * nat dias)) (map (\<lambda>run. run + 1) (py_range n))"
    by (simp add: lista_dfs_def Corrida_bucle_corridas comp_def)
  then show ?thesis by (simp only: py_range_upto)
qed

lemma df_global_casos:
  "df_global R dias seed n esc g =
     (if n < 1 then Inl ValueError else Inr (concat (lista_dfs R dias seed n esc g)))"
proof -
  have "(lista_dfs R dias seed n esc g = []) = (n < 1)"
    using length_lista_dfs [of R dias seed n esc g] by (auto simp del: length_0_conv simp: length_0_conv [symmetric])
  then show ?thesis by (simp add: df_global_def pd_concat_def)
qed

lemma length_concat_replicate:
  "length (concat (map (replicate m) (xs :: int list))) = length xs * m"
  by (induction xs) simp_all

lemma Corrida_concat_lista_dfs:
  "map Corrida (concat (lista_dfs R dias seed n esc g)) =
     concat (map (replicate (4 * nat dias)) [1..n])"
  by (simp only: map_concat Corrida_lista_dfs)

lemma length_concat_lista_dfs:
  "length (concat (lista_dfs R dias seed n esc g)) = nat n * (4 * nat dias)"
proof -
  have "length (map Corrida (concat (lista_dfs R dias seed n esc g))) = length [1..n] * (4 * nat dias)"
    by (simp only: Corrida_concat_lista_dfs length_concat_replicate)
  then show ?thesis by simp
qed






text \<open>
  Claim C2, as amended. The aggregation validates nothing. It fails exactly when
  \<open>num_corridas < 1\<close>, where no run is simulated (the list of frames is empty) and the
  concatenation of no frame raises; for every other input it succeeds, whatever \<open>dias\<close>
  is, with \<open>4 * nat dias\<close> rows for each run and so with no row at all when \<open>dias < 1\<close>.
\<close>

theorem agregacion_falla_solo_sin_corridas:
  "df_global R dias seed num_corridas esc g =
     (if num_corridas < 1 then Inl ValueError
      else Inr (concat (lista_dfs R dias seed num_corridas esc g)))
   \<and> (lista_dfs R dias seed num_corridas esc g = []) = (num_corridas < 1)
   \<and> length (concat (lista_dfs R dias seed num_corridas esc g)) =
       nat num_corridas * (4 * nat dias)"
proof -
  have "(length (lista_dfs R dias seed num_corridas esc g) = 0) = (num_corridas < 1)"
    by (simp only: length_lista_dfs) auto
  then have "(lista_dfs R dias seed num_corridas esc g = []) = (num_corridas < 1)"
    by simp
  then show ?thesis
    by (simp add: df_global_casos length_concat_lista_dfs)
qed

text \<open>
  The claim as stated fails for \<open>dias = 0\<close> and one run: the aggregation returns the
  empty dataset, not an error.
\<close>

theorem agregacion_sin_dias_counterexample:
  "df_global lcg 0 5 1 Base 0 = Inr []"
proof -
  have "length (concat (lista_dfs lcg 0 5 1 Base 0)) = 0"
    by (simp only: length_concat_lista_dfs) simp
  then show ?thesis by (simp add: df_global_casos)
qed

lemma simular_sembrado:
  "s \<noteq> 0 \<Longrightarrow>
     simular_huella_carbono R dias (Some s) g = simular_huella_carbono R dias (Some s) g'"
  by (simp add: simular_huella_carbono_def)

lemma py_range_Cons: "0 < n \<Longrightarrow> py_range n = 0 # map (\<lambda>i. i + 1) (py_range (n - 1))"
proof -
  assume "0 < n"
  then obtain m where m: "nat n = Suc m" by (cases "nat n") auto
  then have "nat (n - 1) = m" by simp
  then show ?thesis
    by (simp add: py_range_def m upt_conv_Cons map_Suc_upt [symmetric] comp_def del: upt_Suc)
qed

lemma lista_dfs_sembrada:
  assumes "seed \<noteq> 0"
  shows "lista_dfs R dias seed n esc g = lista_dfs R dias seed n esc g'"
proof (cases "0 < n")
  case True
  have "simular_huella_carbono R dias (Some seed) g = simular_huella_carbono R dias (Some seed) g'"
    using assms by (rule simular_sembrado)
  then show ?thesis
    using assms by (simp add: lista_dfs_def py_range_Cons [OF True] bucle_corridas_Cons
        del: bucle_corridas.simps(2))
next
  case False
  then show ?thesis by (simp add: lista_dfs_def py_range_def)
qed

text \<open>
  Claim C4. With a base seed that is not zero the aggregated dataset is a function of
  the parameters alone: it does not depend on the state the process-wide generator is
  in when the aggregation starts, which is the only thing that can differ between two
  invocations with the same parameters.
\<close>

theorem agregacion_determinista:
  "seed \<noteq> 0 \<Longrightarrow>
     df_global R dias seed num_corridas esc g = df_global R dias seed num_corridas esc g'"
  by (simp add: df_global_def lista_dfs_sembrada [of seed R dias num_corridas esc g g'])

theorem agregacion_determinista_witness:
  "(5::int) \<noteq> 0 \<and> df_global lcg 2 5 3 Moderadas 0 = df_global lcg 2 5 3 Moderadas 77"
proof -
  have h: "(5::int) \<noteq> 0" by simp
  show ?thesis
    using h agregacion_determinista [OF h, of lcg 2 3 Moderadas 0 77] by (intro conjI)
qed







section \<open>The program on concrete inputs\<close>

lemma random_random_lcg:
  "random_random lcg g = (of_int (g mod 1000000) / 1000000, (g * 421 + 17) mod 1000000)"
  by (simp add: lcg_def)

lemma random_seed_lcg: "random_seed lcg s = \<bar>s\<bar> mod 1000000"
  by (simp add: lcg_def)

lemma py_range_1: "py_range 1 = [0]"
  by (simp add: py_range_def)




lemma iteracion_lcg_6:
  "iteracion lcg Transporte 6 =
     (\<lparr>Actividad = Transporte, Emisiones_tCO2eq = 30, Reduccion_Potencial = 401 / 20,
        Costo_Ambiental_USD = 45001 / 100, Categoria_Impacto = Bajo\<rparr>,
      70620)"
  by (simp add: iteracion_def muestreo_def random_uniform_def random_random_lcg)
     (simp add: fila_de_def categoria_de_def py_round_def round_half_even_def Let_def)

lemma iteracion_lcg_70620:
  "iteracion lcg Energia 70620 =
     (\<lparr>Actividad = Energia, Emisiones_tCO2eq = 28531 / 500, Reduccion_Potencial = 5193 / 100,
        Costo_Ambiental_USD = 85593 / 100, Categoria_Impacto = Medio\<rparr>,
      766594)"
  by (simp add: iteracion_def muestreo_def random_uniform_def random_random_lcg)
     (simp add: fila_de_def categoria_de_def py_round_def round_half_even_def Let_def)

lemma iteracion_lcg_766594:
  "iteracion lcg Residuos 766594 =
     (\<lparr>Actividad = Residuos, Emisiones_tCO2eq = 4833 / 100, Reduccion_Potencial = 802 / 25,
        Costo_Ambiental_USD = 14499 / 20, Categoria_Impacto = Medio\<rparr>,
      894328)"
  by (simp add: iteracion_def muestreo_def random_uniform_def random_random_lcg)
     (simp add: fila_de_def categoria_de_def py_round_def round_half_even_def Let_def)

lemma iteracion_lcg_894328:
  "iteracion lcg Agua 894328 =
     (\<lparr>Actividad = Agua, Emisiones_tCO2eq = 13679 / 500, Reduccion_Potencial = 317 / 25,
        Costo_Ambiental_USD = 41037 / 100, Categoria_Impacto = Bajo\<rparr>,
      596222)"
  by (simp add: iteracion_def muestreo_def random_uniform_def random_random_lcg)
     (simp add: fila_de_def categoria_de_def py_round_def round_half_even_def Let_def)

lemma iteracion_lcg_142855:
  "iteracion lcg Transporte 142855 =
     (\<lparr>Actividad = Transporte, Emisiones_tCO2eq = 40, Reduccion_Potencial = 571 / 25,
        Costo_Ambiental_USD = 600, Categoria_Impacto = Bajo\<rparr>,
      770229)"
  by (simp add: iteracion_def muestreo_def random_uniform_def random_random_lcg)
     (simp add: fila_de_def categoria_de_def py_round_def round_half_even_def Let_def)

lemma iteracion_lcg_999995:
  "iteracion lcg Transporte 999995 =
     (\<lparr>Actividad = Transporte, Emisiones_tCO2eq = 100, Reduccion_Potencial = 999 / 25,
        Costo_Ambiental_USD = 149999 / 100, Categoria_Impacto = Alto\<rparr>,
      120969)"
  by (simp add: iteracion_def muestreo_def random_uniform_def random_random_lcg)
     (simp add: fila_de_def categoria_de_def py_round_def round_half_even_def Let_def)

section \<open>Rounding\<close>


lemma round_half_even_cota: "\<bar>of_int (round_half_even y) - y\<bar> \<le> 1 / 2"
proof -
  have "of_int \<lfloor>y\<rfloor> \<le> y" and "y < of_int \<lfloor>y\<rfloor> + 1" by linarith+
  then show ?thesis
    by (auto simp: round_half_even_def Let_def)
qed

lemma round_half_even_ge: "of_int k \<le> y \<Longrightarrow> k \<le> round_half_even y"
proof -
  assume "of_int k \<le> y"
  then have "k \<le> \<lfloor>y\<rfloor>" by (simp add: le_floor_iff)
  then show ?thesis by (auto simp: round_half_even_def Let_def)
qed

lemma round_half_even_le: "y \<le> of_int k \<Longrightarrow> round_half_even y \<le> k"
proof -
  assume h: "y \<le> of_int k"
  then have "\<lfloor>y\<rfloor> \<le> k" by (simp add: floor_le_iff)
  then consider "\<lfloor>y\<rfloor> = k" | "\<lfloor>y\<rfloor> + 1 \<le> k" by linarith
  then show ?thesis
  proof cases
    case 1
    then have "y - of_int \<lfloor>y\<rfloor> \<le> 0" using h by simp
    then show ?thesis using 1 by (simp add: round_half_even_def Let_def)
  next
    case 2
    then show ?thesis by (auto simp: round_half_even_def Let_def)
  qed
qed

lemma py_round_cota: "\<bar>py_round x n - x\<bar> \<le> 1 / (2 * 10 ^ n)"
proof -
  have "py_round x n - x = (of_int (round_half_even (x * 10 ^ n)) - x * 10 ^ n) / 10 ^ n"
    by (simp add: py_round_def field_simps)
  then have "\<bar>py_round x n - x\<bar> =
      \<bar>of_int (round_half_even (x * 10 ^ n)) - x * 10 ^ n\<bar> / 10 ^ n"
    by (simp add: abs_divide)
  also have "\<dots> \<le> (1 / 2) / 10 ^ n"
    by (intro divide_right_mono round_half_even_cota) simp
  finally show ?thesis by simp
qed

lemma py_round_ge: "of_int a \<le> x \<Longrightarrow> of_int a \<le> py_round x n"
proof -
  assume "of_int a \<le> x"
  then have "of_int (a * 10 ^ n) \<le> x * 10 ^ n" by simp
  then have "a * 10 ^ n \<le> round_half_even (x * 10 ^ n)" by (rule round_half_even_ge)
  then have "(of_int (a * 10 ^ n) :: real) \<le> of_int (round_half_even (x * 10 ^ n))"
    by (simp only: of_int_le_iff)
  then show ?thesis by (simp add: py_round_def pos_le_divide_eq)
qed

lemma py_round_le: "x \<le> of_int b \<Longrightarrow> py_round x n \<le> of_int b"
proof -
  assume "x \<le> of_int b"
  then have "x * 10 ^ n \<le> of_int (b * 10 ^ n)" by simp
  then have "round_half_even (x * 10 ^ n) \<le> b * 10 ^ n" by (rule round_half_even_le)
  then have "(of_int (round_half_even (x * 10 ^ n)) :: real) \<le> of_int (b * 10 ^ n)"
    by (simp only: of_int_le_iff)
  then show ?thesis by (simp add: py_round_def pos_divide_le_eq)
qed

lemma categoria_de_redondeo:
  assumes "py_round e 3 \<noteq> 40" and "py_round e 3 \<noteq> 90"
  shows "categoria_de e = categoria_de (py_round e 3)"
proof -
  define m where "m = round_half_even (e * 10 ^ 3)"
  have r: "py_round e 3 = of_int m / 1000" by (simp add: py_round_def m_def)
  have c: "\<bar>of_int m - e * 1000\<bar> \<le> 1 / 2"
    using round_half_even_cota [of "e * 10 ^ 3"] by (simp add: m_def)
  have "m \<noteq> 40000" and "m \<noteq> 90000" using assms by (auto simp: r)
  then consider "m \<le> 39999" | "40001 \<le> m \<and> m \<le> 89999" | "90001 \<le> m" by linarith
  then show ?thesis
  proof cases
    case 1
    then have m: "(of_int m :: real) \<le> 39999" by simp
    have "e < 40" using c m by linarith
    moreover have "py_round e 3 < 40" unfolding r using m by linarith
    ultimately show ?thesis by (simp add: categoria_de_def)
  next
    case 2
    then have m: "(40001 :: real) \<le> of_int m" "(of_int m :: real) \<le> 89999" by simp_all
    have "40 \<le> e \<and> e \<le> 90" using c m by linarith
    moreover have "40 \<le> py_round e 3 \<and> py_round e 3 \<le> 90" unfolding r using m by linarith
    ultimately show ?thesis by (simp add: categoria_de_def)
  next
    case 3
    then have m: "(90001 :: real) \<le> of_int m" by simp
    have "90 < e" using c m by linarith
    moreover have "90 < py_round e 3" unfolding r using m by linarith
    ultimately show ?thesis by (simp add: categoria_de_def)
  qed
qed

section \<open>The values of generated rows\<close>


lemma filas_bucle_dias:
  "f \<in> set (fst (bucle_dias R act is g)) \<Longrightarrow> \<exists>g'. f = fst (iteracion R act g')"
proof (induction "is" arbitrary: g)
  case Nil
  then show ?case by simp
next
  case (Cons i "is")
  obtain f1 g1 where it: "iteracion R act g = (f1, g1)" by (cases "iteracion R act g")
  obtain fs g2 where rest: "bucle_dias R act is g1 = (fs, g2)" by (cases "bucle_dias R act is g1")
  from Cons.prems it rest have "f = f1 \<or> f \<in> set fs" by simp
  then show ?case
  proof
    assume "f = f1"
    then have "f = fst (iteracion R act g)" using it by simp
    then show ?thesis ..
  next
    assume "f \<in> set fs"
    then have "f \<in> set (fst (bucle_dias R act is g1))" using rest by simp
    then show ?thesis by (rule Cons.IH)
  qed
qed

lemma filas_bucle_actividades:
  "f \<in> set (fst (bucle_actividades R acts dias g)) \<Longrightarrow>
     \<exists>act g'. f = fst (iteracion R act g')"
proof (induction acts arbitrary: g)
  case Nil
  then show ?case by simp
next
  case (Cons act acts)
  obtain fs g1 where d: "bucle_dias R act (py_range dias) g = (fs, g1)"
    by (cases "bucle_dias R act (py_range dias) g")
  obtain hs g2 where r: "bucle_actividades R acts dias g1 = (hs, g2)"
    by (cases "bucle_actividades R acts dias g1")
  from Cons.prems d r have "f \<in> set fs \<or> f \<in> set hs" by simp
  then show ?case
  proof
    assume "f \<in> set fs"
    then have "f \<in> set (fst (bucle_dias R act (py_range dias) g))" using d by simp
    then have "\<exists>g'. f = fst (iteracion R act g')" by (rule filas_bucle_dias)
    then show ?thesis by (rule exI [of _ act])
  next
    assume "f \<in> set hs"
    then have "f \<in> set (fst (bucle_actividades R acts dias g1))" using r by simp
    then show ?thesis by (rule Cons.IH)
  qed
qed

lemma filas_simular:
  assumes "f \<in> set (fst (simular_huella_carbono R dias seed g))"
  shows "\<exists>act g'. f = fila_de act (fst (fst (muestreo R act g'))) (snd (fst (muestreo R act g')))"
proof -
  from assms have "\<exists>act g'. f = fst (iteracion R act g')"
    unfolding simular_huella_carbono_def by (rule filas_bucle_actividades)
  then show ?thesis by (simp add: iteracion_fila)
qed

lemma primera_fila_bucle_dias:
  "bucle_dias R act (i # is) g =
     (fst (iteracion R act g) # fst (bucle_dias R act is (snd (iteracion R act g))),
      snd (bucle_dias R act is (snd (iteracion R act g))))"
  by (simp split: prod.splits)

lemma primera_fila_simular:
  assumes "0 < dias"
  shows "fst (simular_huella_carbono R dias None g) ! 0 = fst (iteracion R Transporte g)"
  by (simp add: simular_huella_carbono_def actividades_def py_range_Cons [OF assms]
      primera_fila_bucle_dias split: prod.splits del: bucle_dias.simps(2))

lemma campos_fila_de:
  "Emisiones_tCO2eq (fila_de act e r) = py_round e 3"
  "Reduccion_Potencial (fila_de act e r) = py_round r 2"
  "Costo_Ambiental_USD (fila_de act e r) = py_round (e * 15) 2"
  "Categoria_Impacto (fila_de act e r) = categoria_de e"
  by (simp_all add: fila_de_def Let_def)

text \<open>
  Claim C3, as amended. The impact category of a generated row is the classification of
  the emission drawn, before it is rounded to three decimals for the emission column.
  It is the classification of the stored emission whenever the stored emission is
  neither 40 nor 90; a draw within 0.0005 of one of the two boundaries can be stored as
  the boundary itself and keep the category of its own side.
\<close>

theorem categoria_de_la_emision_sorteada:
  "\<forall>f\<in>set (fst (simular_huella_carbono R dias seed g)).
     (\<exists>e. Emisiones_tCO2eq f = py_round e 3 \<and> Categoria_Impacto f = categoria_de e)
     \<and> (Emisiones_tCO2eq f = 40 \<or> Emisiones_tCO2eq f = 90
         \<or> Categoria_Impacto f = categoria_de (Emisiones_tCO2eq f))"
proof
  fix f
  assume "f \<in> set (fst (simular_huella_carbono R dias seed g))"
  then have "\<exists>act g'. f = fila_de act (fst (fst (muestreo R act g')))
      (snd (fst (muestreo R act g')))"
    by (rule filas_simular)
  then obtain act e r where f: "f = fila_de act e r"
    by auto
  have "Emisiones_tCO2eq f = py_round e 3 \<and> Categoria_Impacto f = categoria_de e"
    by (simp add: f campos_fila_de)
  moreover have "Emisiones_tCO2eq f = 40 \<or> Emisiones_tCO2eq f = 90
      \<or> Categoria_Impacto f = categoria_de (Emisiones_tCO2eq f)"
    using categoria_de_redondeo [of e] by (auto simp: f campos_fila_de)
  ultimately show "(\<exists>e. Emisiones_tCO2eq f = py_round e 3 \<and> Categoria_Impacto f = categoria_de e)
     \<and> (Emisiones_tCO2eq f = 40 \<or> Emisiones_tCO2eq f = 90
         \<or> Categoria_Impacto f = categoria_de (Emisiones_tCO2eq f))"
    by blast
qed

lemma bucle_actividades_lcg_6:
  "bucle_actividades lcg actividades 1 6 =
     ([fst (iteracion lcg Transporte 6), fst (iteracion lcg Energia 70620),
       fst (iteracion lcg Residuos 766594), fst (iteracion lcg Agua 894328)], 596222)"
  by (simp add: actividades_def py_range_1 iteracion_lcg_6 iteracion_lcg_70620
      iteracion_lcg_766594 iteracion_lcg_894328)

theorem categoria_de_la_emision_sorteada_witness:
  "fst (iteracion lcg Energia 70620) \<in> set (fst (simular_huella_carbono lcg 1 (Some 6) 0))
   \<and> Emisiones_tCO2eq (fst (iteracion lcg Energia 70620)) = 57.062
   \<and> Categoria_Impacto (fst (iteracion lcg Energia 70620)) = Medio
   \<and> categoria_de 57.062 = Medio"
proof -
  let ?f = "fst (iteracion lcg Energia 70620)"
  have m: "?f \<in> set (fst (simular_huella_carbono lcg 1 (Some 6) 0))"
    by (simp add: simular_huella_carbono_def random_seed_lcg bucle_actividades_lcg_6)
  have e: "Emisiones_tCO2eq ?f = 57.062" by (simp add: iteracion_lcg_70620)
  have "Emisiones_tCO2eq ?f = 40 \<or> Emisiones_tCO2eq ?f = 90
      \<or> Categoria_Impacto ?f = categoria_de (Emisiones_tCO2eq ?f)"
    using categoria_de_la_emision_sorteada [of lcg 1 "Some 6" 0] m by simp
  then have c: "Categoria_Impacto ?f = categoria_de 57.062"
    by (simp add: e)
  have k: "categoria_de 57.062 = Medio" by (simp add: categoria_de_def)
  show ?thesis using m e c k by simp
qed

text \<open>
  The claim as stated fails on a draw just below a boundary: from the generator state
  142855 the first emission drawn is 39.99985, classified \<open>Bajo\<close> and stored as 40.0,
  which the classification maps to \<open>Medio\<close>.
\<close>

theorem categoria_de_la_emision_guardada_counterexample:
  "Emisiones_tCO2eq (fst (simular_huella_carbono lcg 1 None 142855) ! 0) = 40
   \<and> Categoria_Impacto (fst (simular_huella_carbono lcg 1 None 142855) ! 0) = Bajo
   \<and> categoria_de 40 = Medio"
  by (simp add: primera_fila_simular iteracion_lcg_142855 categoria_de_def)

lemma random_uniform_rango:
  assumes "0 \<le> fst (random_random R g) \<and> fst (random_random R g) < 1" and "a < b"
  shows "a \<le> fst (random_uniform R a b g) \<and> fst (random_uniform R a b g) < b"
proof -
  obtain u g' where u: "random_random R g = (u, g')" by (cases "random_random R g")
  with assms(1) have "0 \<le> u" and "u < 1" by simp_all
  have "0 \<le> (b - a) * u" using \<open>0 \<le> u\<close> assms(2) by simp
  moreover have "(b - a) * u < (b - a) * 1"
    using \<open>u < 1\<close> assms(2) by (intro mult_strict_left_mono) simp_all
  ultimately show ?thesis by (simp add: random_uniform_def u)
qed

lemma muestreo_rango:
  assumes "\<forall>g. 0 \<le> fst (random_random R g) \<and> fst (random_random R g) < 1"
  shows "case act of
      Transporte \<Rightarrow> 30 \<le> fst (fst (muestreo R act g)) \<and> fst (fst (muestreo R act g)) < 100
        \<and> 20 \<le> snd (fst (muestreo R act g)) \<and> snd (fst (muestreo R act g)) < 40
    | Energia \<Rightarrow> 50 \<le> fst (fst (muestreo R act g)) \<and> fst (fst (muestreo R act g)) < 150
        \<and> 30 \<le> snd (fst (muestreo R act g)) \<and> snd (fst (muestreo R act g)) < 60
    | Residuos \<Rightarrow> 10 \<le> fst (fst (muestreo R act g)) \<and> fst (fst (muestreo R act g)) < 60
        \<and> 10 \<le> snd (fst (muestreo R act g)) \<and> snd (fst (muestreo R act g)) < 40
    | Agua \<Rightarrow> 5 \<le> fst (fst (muestreo R act g)) \<and> fst (fst (muestreo R act g)) < 30
        \<and> 5 \<le> snd (fst (muestreo R act g)) \<and> snd (fst (muestreo R act g)) < 20"
proof -
  have u: "a < b \<Longrightarrow> a \<le> fst (random_uniform R a b h) \<and> fst (random_uniform R a b h) < b"
    for a b h
    using assms by (intro random_uniform_rango) simp_all
  show ?thesis
  proof (cases act)
    case Transporte
    show ?thesis
      using u [of 30 100 g] u [of 20 40 "snd (random_uniform R 30 100 g)"]
      by (auto simp: Transporte muestreo_def split: prod.splits)
  next
    case Energia
    show ?thesis
      using u [of 50 150 g] u [of 30 60 "snd (random_uniform R 50 150 g)"]
      by (auto simp: Energia muestreo_def split: prod.splits)
  next
    case Residuos
    show ?thesis
      using u [of 10 60 g] u [of 10 40 "snd (random_uniform R 10 60 g)"]
      by (auto simp: Residuos muestreo_def split: prod.splits)
  next
    case Agua
    show ?thesis
      using u [of 5 30 g] u [of 5 20 "snd (random_uniform R 5 30 g)"]
      by (auto simp: Agua muestreo_def split: prod.splits)
  qed
qed

lemma py_round_entre:
  "of_int a \<le> x \<Longrightarrow> x < of_int b \<Longrightarrow> of_int a \<le> py_round x n \<and> py_round x n \<le> of_int b"
  by (simp add: py_round_ge py_round_le)

text \<open>
  Claim C8, as amended. When every draw of the generator lies in \<open>[0, 1)\<close>, the emission
  and the reduction potential stored in a generated row lie in the closed range of the
  row's activity: the draw lies in the half-open range, and rounding it to three or two
  decimals can reach the upper end.
\<close>

theorem valores_en_rango:
  assumes "\<forall>g. 0 \<le> fst (random_random R g) \<and> fst (random_random R g) < 1"
  shows "\<forall>f\<in>set (fst (simular_huella_carbono R dias seed g)).
    (case Actividad f of
       Transporte \<Rightarrow> 30 \<le> Emisiones_tCO2eq f \<and> Emisiones_tCO2eq f \<le> 100
         \<and> 20 \<le> Reduccion_Potencial f \<and> Reduccion_Potencial f \<le> 40
     | Energia \<Rightarrow> 50 \<le> Emisiones_tCO2eq f \<and> Emisiones_tCO2eq f \<le> 150
         \<and> 30 \<le> Reduccion_Potencial f \<and> Reduccion_Potencial f \<le> 60
     | Residuos \<Rightarrow> 10 \<le> Emisiones_tCO2eq f \<and> Emisiones_tCO2eq f \<le> 60
         \<and> 10 \<le> Reduccion_Potencial f \<and> Reduccion_Potencial f \<le> 40
     | Agua \<Rightarrow> 5 \<le> Emisiones_tCO2eq f \<and> Emisiones_tCO2eq f \<le> 30
         \<and> 5 \<le> Reduccion_Potencial f \<and> Reduccion_Potencial f \<le> 20)"
proof
  fix f
  assume "f \<in> set (fst (simular_huella_carbono R dias seed g))"
  then have "\<exists>act g'. f = fila_de act (fst (fst (muestreo R act g')))
      (snd (fst (muestreo R act g')))"
    by (rule filas_simular)
  then obtain act g' where f: "f = fila_de act (fst (fst (muestreo R act g')))
      (snd (fst (muestreo R act g')))"
    by auto
  note m = muestreo_rango [OF assms, of act g']
  show "case Actividad f of
       Transporte \<Rightarrow> 30 \<le> Emisiones_tCO2eq f \<and> Emisiones_tCO2eq f \<le> 100
         \<and> 20 \<le> Reduccion_Potencial f \<and> Reduccion_Potencial f \<le> 40
     | Energia \<Rightarrow> 50 \<le> Emisiones_tCO2eq f \<and> Emisiones_tCO2eq f \<le> 150
         \<and> 30 \<le> Reduccion_Potencial f \<and> Reduccion_Potencial f \<le> 60
     | Residuos \<Rightarrow> 10 \<le> Emisiones_tCO2eq f \<and> Emisiones_tCO2eq f \<le> 60
         \<and> 10 \<le> Reduccion_Potencial f \<and> Reduccion_Potencial f \<le> 40
     | Agua \<Rightarrow> 5 \<le> Emisiones_tCO2eq f \<and> Emisiones_tCO2eq f \<le> 30
         \<and> 5 \<le> Reduccion_Potencial f \<and> Reduccion_Potencial f \<le> 20"
  proof (cases act)
    case Transporte
    show ?thesis
      using m py_round_entre [of 30 _ 100] py_round_entre [of 20 _ 40]
      by (simp add: f Transporte Actividad_fila_de campos_fila_de)
  next
    case Energia
    show ?thesis
      using m py_round_entre [of 50 _ 150] py_round_entre [of 30 _ 60]
      by (simp add: f Energia Actividad_fila_de campos_fila_de)
  next
    case Residuos
    show ?thesis
      using m py_round_entre [of 10 _ 60] py_round_entre [of 10 _ 40]
      by (simp add: f Residuos Actividad_fila_de campos_fila_de)
  next
    case Agua
    show ?thesis
      using m py_round_entre [of 5 _ 30] py_round_entre [of 5 _ 20]
      by (simp add: f Agua Actividad_fila_de campos_fila_de)
  qed
qed

lemma random_random_lcg_rango:
  "\<forall>g. 0 \<le> fst (random_random lcg g) \<and> fst (random_random lcg g) < 1"
proof
  fix g :: int
  have "0 \<le> g mod 1000000" and "g mod 1000000 < 1000000" by simp_all
  then have "(0::real) \<le> of_int (g mod 1000000)" and "(of_int (g mod 1000000) :: real) < 1000000"
    by linarith+
  then show "0 \<le> fst (random_random lcg g) \<and> fst (random_random lcg g) < 1"
    by (simp add: random_random_lcg)
qed

theorem valores_en_rango_witness:
  "(\<forall>g. 0 \<le> fst (random_random lcg g) \<and> fst (random_random lcg g) < 1)
   \<and> fst (iteracion lcg Residuos 766594) \<in> set (fst (simular_huella_carbono lcg 1 (Some 6) 0))
   \<and> Actividad (fst (iteracion lcg Residuos 766594)) = Residuos
   \<and> Emisiones_tCO2eq (fst (iteracion lcg Residuos 766594)) = 48.33
   \<and> Reduccion_Potencial (fst (iteracion lcg Residuos 766594)) = 32.08
   \<and> 10 \<le> Emisiones_tCO2eq (fst (iteracion lcg Residuos 766594))
   \<and> Emisiones_tCO2eq (fst (iteracion lcg Residuos 766594)) \<le> 60
   \<and> 10 \<le> Reduccion_Potencial (fst (iteracion lcg Residuos 766594))
   \<and> Reduccion_Potencial (fst (iteracion lcg Residuos 766594)) \<le> 40"
proof -
  let ?f = "fst (iteracion lcg Residuos 766594)"
  have m: "?f \<in> set (fst (simular_huella_carbono lcg 1 (Some 6) 0))"
    by (simp add: simular_huella_carbono_def random_seed_lcg bucle_actividades_lcg_6)
  have a: "Actividad ?f = Residuos" by (simp add: iteracion_lcg_766594)
  have e: "Emisiones_tCO2eq ?f = 48.33" and r: "Reduccion_Potencial ?f = 32.08"
    by (simp_all add: iteracion_lcg_766594)
  have "case Actividad ?f of
       Transporte \<Rightarrow> 30 \<le> Emisiones_tCO2eq ?f \<and> Emisiones_tCO2eq ?f \<le> 100
         \<and> 20 \<le> Reduccion_Potencial ?f \<and> Reduccion_Potencial ?f \<le> 40
     | Energia \<Rightarrow> 50 \<le> Emisiones_tCO2eq ?f \<and> Emisiones_tCO2eq ?f \<le> 150
         \<and> 30 \<le> Reduccion_Potencial ?f \<and> Reduccion_Potencial ?f \<le> 60
     | Residuos \<Rightarrow> 10 \<le> Emisiones_tCO2eq ?f \<and> Emisiones_tCO2eq ?f \<le> 60
         \<and> 10 \<le> Reduccion_Potencial ?f \<and> Reduccion_Potencial ?f \<le> 40
     | Agua \<Rightarrow> 5 \<le> Emisiones_tCO2eq ?f \<and> Emisiones_tCO2eq ?f \<le> 30
         \<and> 5 \<le> Reduccion_Potencial ?f \<and> Reduccion_Potencial ?f \<le> 20"
    using valores_en_rango [OF random_random_lcg_rango, of 1 "Some 6" 0] m by (rule bspec)
  then have b: "10 \<le> Emisiones_tCO2eq ?f \<and> Emisiones_tCO2eq ?f \<le> 60
         \<and> 10 \<le> Reduccion_Potencial ?f \<and> Reduccion_Potencial ?f \<le> 40"
    by (simp only: a actividad.case)
  show ?thesis
    using random_random_lcg_rango m a e r b by (intro conjI) simp_all
qed

text \<open>
  The claim as stated fails on a draw just below the upper end: from the generator
  state 999995 the first emission drawn for \<open>Transporte\<close> is 99.99965, stored as 100.0,
  which is outside \<open>[30, 100)\<close>.
\<close>

theorem emision_fuera_del_rango_counterexample:
  "Actividad (fst (simular_huella_carbono lcg 1 None 999995) ! 0) = Transporte
   \<and> Emisiones_tCO2eq (fst (simular_huella_carbono lcg 1 None 999995) ! 0) = 100"
  by (simp add: primera_fila_simular iteracion_lcg_999995)

lemma filas_aplicar_escenario:
  assumes "f' \<in> set (aplicar_escenario esc df)"
  shows "\<exists>f\<in>set df.
     Emisiones_tCO2eq f' = (if esc = Base then 1 else if esc = Moderadas then 0.85 else 0.65)
                            * Emisiones_tCO2eq f
     \<and> Costo_Ambiental_USD f' =
         (if esc = Base then Costo_Ambiental_USD f else Emisiones_tCO2eq f' * 15)"
  using assms by (cases esc) (auto simp: aplicar_escenario_def Let_def)

lemma filas_bucle_corridas:
  "df \<in> set (fst (bucle_corridas R dias seed esc runs g)) \<Longrightarrow>
     \<exists>k s g'. df = asignar_corrida k (aplicar_escenario esc (fst (simular_huella_carbono R dias s g')))"
proof (induction runs arbitrary: g)
  case Nil
  then show ?case by simp
next
  case (Cons run runs)
  let ?s = "if seed \<noteq> 0 then Some (seed + run) else None"
  let ?g1 = "snd (simular_huella_carbono R dias ?s g)"
  from Cons.prems have
    "df = asignar_corrida (run + 1) (aplicar_escenario esc (fst (simular_huella_carbono R dias ?s g)))
     \<or> df \<in> set (fst (bucle_corridas R dias seed esc runs ?g1))"
    by (simp add: bucle_corridas_Cons del: bucle_corridas.simps(2))
  then show ?case
  proof
    assume "df = asignar_corrida (run + 1)
        (aplicar_escenario esc (fst (simular_huella_carbono R dias ?s g)))"
    then show ?thesis by (intro exI)
  next
    assume "df \<in> set (fst (bucle_corridas R dias seed esc runs ?g1))"
    then show ?thesis by (rule Cons.IH)
  qed
qed

lemma filas_asignar_corrida:
  assumes "fc \<in> set (asignar_corrida k df)"
  shows "\<exists>f\<in>set df. Emisiones_tCO2eq fc = Emisiones_tCO2eq f
     \<and> Costo_Ambiental_USD fc = Costo_Ambiental_USD f"
  using assms by (auto simp: asignar_corrida_def)

lemma costo_sin_escenario:
  "\<bar>py_round (e * 15) 2 - py_round e 3 * 15\<bar> \<le> 1 / 80"
proof -
  have "\<bar>py_round (e * 15) 2 - e * 15\<bar> \<le> 1 / 200"
    using py_round_cota [of "e * 15" 2] by simp
  moreover have "\<bar>py_round e 3 - e\<bar> \<le> 1 / 2000"
    using py_round_cota [of e 3] by simp
  ultimately show ?thesis by linarith
qed

text \<open>
  Claim C1, as amended. Under the two policies the stored cost of every row of the
  aggregated dataset is the stored, adjusted emission times 15, recomputed from it and
  not rounded. Under the baseline scenario the stored cost is the cost of the emission
  drawn, rounded to two decimals, while the stored emission is that draw rounded to
  three decimals: the cost is within 0.0125 of the stored emission times 15.
\<close>

theorem costo_de_la_emision:
  assumes "df_global R dias seed num_corridas esc g = Inr ds"
  shows "\<forall>f\<in>set ds.
    (if esc = Base
     then (\<exists>e. Emisiones_tCO2eq f = py_round e 3 \<and> Costo_Ambiental_USD f = py_round (e * 15) 2)
          \<and> \<bar>Costo_Ambiental_USD f - Emisiones_tCO2eq f * 15\<bar> \<le> 1 / 80
     else Costo_Ambiental_USD f = Emisiones_tCO2eq f * 15)"
proof
  fix f
  assume "f \<in> set ds"
  moreover have "ds = concat (lista_dfs R dias seed num_corridas esc g)"
    using assms by (simp add: df_global_casos split: if_splits)
  ultimately obtain df where df: "df \<in> set (lista_dfs R dias seed num_corridas esc g)"
    and f: "f \<in> set df"
    by auto
  from df have "\<exists>k s g'. df =
      asignar_corrida k (aplicar_escenario esc (fst (simular_huella_carbono R dias s g')))"
    unfolding lista_dfs_def by (rule filas_bucle_corridas)
  then obtain k s g' where
    "df = asignar_corrida k (aplicar_escenario esc (fst (simular_huella_carbono R dias s g')))"
    by auto
  with f obtain f1 where
    f1: "f1 \<in> set (aplicar_escenario esc (fst (simular_huella_carbono R dias s g')))"
    and ef: "Emisiones_tCO2eq f = Emisiones_tCO2eq f1"
    and cf: "Costo_Ambiental_USD f = Costo_Ambiental_USD f1"
    using filas_asignar_corrida by blast
  from f1 obtain f0 where f0: "f0 \<in> set (fst (simular_huella_carbono R dias s g'))"
    and ef1: "Emisiones_tCO2eq f1 =
        (if esc = Base then 1 else if esc = Moderadas then 0.85 else 0.65) * Emisiones_tCO2eq f0"
    and cf1: "Costo_Ambiental_USD f1 =
        (if esc = Base then Costo_Ambiental_USD f0 else Emisiones_tCO2eq f1 * 15)"
    using filas_aplicar_escenario by blast
  from f0 have "\<exists>act g''. f0 = fila_de act (fst (fst (muestreo R act g'')))
      (snd (fst (muestreo R act g'')))"
    by (rule filas_simular)
  then obtain act e r where "f0 = fila_de act e r" by auto
  then have e0: "Emisiones_tCO2eq f0 = py_round e 3"
    and c0: "Costo_Ambiental_USD f0 = py_round (e * 15) 2"
    by (simp_all add: campos_fila_de)
  show "if esc = Base
     then (\<exists>e. Emisiones_tCO2eq f = py_round e 3 \<and> Costo_Ambiental_USD f = py_round (e * 15) 2)
          \<and> \<bar>Costo_Ambiental_USD f - Emisiones_tCO2eq f * 15\<bar> \<le> 1 / 80
     else Costo_Ambiental_USD f = Emisiones_tCO2eq f * 15"
  proof (cases "esc = Base")
    case True
    have "Emisiones_tCO2eq f = py_round e 3" and "Costo_Ambiental_USD f = py_round (e * 15) 2"
      using True ef cf ef1 cf1 e0 c0 by simp_all
    then show ?thesis
      using True costo_sin_escenario [of e] by auto
  next
    case False
    then show ?thesis using ef cf cf1 by simp
  qed
qed

lemma df_global_lcg_6:
  "df_global lcg 1 6 1 esc 0 =
     Inr (asignar_corrida 1 (aplicar_escenario esc
       [fst (iteracion lcg Transporte 6), fst (iteracion lcg Energia 70620),
        fst (iteracion lcg Residuos 766594), fst (iteracion lcg Agua 894328)]))"
  by (simp add: df_global_def lista_dfs_def pd_concat_def py_range_1 bucle_corridas_Cons
      simular_huella_carbono_def random_seed_lcg bucle_actividades_lcg_6
      del: bucle_corridas.simps(2))

lemma df_global_lcg_6_Base:
  "df_global lcg 1 6 1 Base 0 =
     Inr (asignar_corrida 1
       [fst (iteracion lcg Transporte 6), fst (iteracion lcg Energia 70620),
        fst (iteracion lcg Residuos 766594), fst (iteracion lcg Agua 894328)])"
  by (simp add: df_global_lcg_6 aplicar_escenario_def)

lemma df_global_lcg_6_Moderadas:
  "df_global lcg 1 6 1 Moderadas 0 =
     Inr (asignar_corrida 1
       (map (\<lambda>f. f\<lparr>Costo_Ambiental_USD := Emisiones_tCO2eq f * 15\<rparr>)
         (map (\<lambda>f. f\<lparr>Emisiones_tCO2eq := Emisiones_tCO2eq f * 0.85\<rparr>)
           [fst (iteracion lcg Transporte 6), fst (iteracion lcg Energia 70620),
            fst (iteracion lcg Residuos 766594), fst (iteracion lcg Agua 894328)])))"
  by (simp add: df_global_lcg_6 aplicar_escenario_def Let_def)

theorem costo_de_la_emision_witness:
  "\<exists>ds. df_global lcg 1 6 1 Moderadas 0 = Inr ds
     \<and> ds ! 1 \<in> set ds
     \<and> Emisiones_tCO2eq (ds ! 1) = 48.5027
     \<and> Costo_Ambiental_USD (ds ! 1) = 727.5405
     \<and> Costo_Ambiental_USD (ds ! 1) = Emisiones_tCO2eq (ds ! 1) * 15"
proof -
  obtain ds where ds: "df_global lcg 1 6 1 Moderadas 0 = Inr ds"
    and d: "ds = asignar_corrida 1
       (map (\<lambda>f. f\<lparr>Costo_Ambiental_USD := Emisiones_tCO2eq f * 15\<rparr>)
         (map (\<lambda>f. f\<lparr>Emisiones_tCO2eq := Emisiones_tCO2eq f * 0.85\<rparr>)
           [fst (iteracion lcg Transporte 6), fst (iteracion lcg Energia 70620),
            fst (iteracion lcg Residuos 766594), fst (iteracion lcg Agua 894328)]))"
    using df_global_lcg_6_Moderadas by simp
  have m: "ds ! 1 \<in> set ds" by (simp add: d asignar_corrida_def)
  have e: "Emisiones_tCO2eq (ds ! 1) = 48.5027"
    and c: "Costo_Ambiental_USD (ds ! 1) = 727.5405"
    by (simp_all add: d asignar_corrida_def iteracion_lcg_70620)
  have "if Moderadas = Base
     then (\<exists>e. Emisiones_tCO2eq (ds ! 1) = py_round e 3
              \<and> Costo_Ambiental_USD (ds ! 1) = py_round (e * 15) 2)
          \<and> \<bar>Costo_Ambiental_USD (ds ! 1) - Emisiones_tCO2eq (ds ! 1) * 15\<bar> \<le> 1 / 80
     else Costo_Ambiental_USD (ds ! 1) = Emisiones_tCO2eq (ds ! 1) * 15"
    using costo_de_la_emision [OF ds] m by (rule bspec)
  then have t: "Costo_Ambiental_USD (ds ! 1) = Emisiones_tCO2eq (ds ! 1) * 15"
    by simp
  show ?thesis
    by (rule exI [of _ ds]) (intro conjI ds m e c t)
qed

text \<open>
  The claim as stated fails under the baseline scenario and under a policy. With seed 6
  and the baseline scenario the first row stores the emission 30.0 and the cost 450.01
  (the draw is 30.00042), while \<open>round(30.0 * 15, 2)\<close> is 450.0. With the moderate policy
  the second row stores the emission 48.5027 and the cost 727.5405, which is not rounded
  to two decimals.
\<close>

theorem costo_redondeado_counterexample:
  "(case df_global lcg 1 6 1 Base 0 of
      Inl err \<Rightarrow> False
    | Inr ds \<Rightarrow> Emisiones_tCO2eq (ds ! 0) = 30
        \<and> Costo_Ambiental_USD (ds ! 0) = 450.01
        \<and> py_round (Emisiones_tCO2eq (ds ! 0) * 15) 2 = 450)
   \<and> (case df_global lcg 1 6 1 Moderadas 0 of
      Inl err \<Rightarrow> False
    | Inr ds \<Rightarrow> Emisiones_tCO2eq (ds ! 1) = 48.5027
        \<and> Costo_Ambiental_USD (ds ! 1) = 727.5405
        \<and> py_round (Emisiones_tCO2eq (ds ! 1) * 15) 2 = 727.54)"
proof -
  have r1: "py_round (30 * 15) 2 = 450"
    by (simp add: py_round_def round_half_even_def Let_def)
  have r2: "py_round (48.5027 * 15) 2 = 727.54"
    by (simp add: py_round_def round_half_even_def Let_def)
  show ?thesis
    using r1 r2
    by (simp add: df_global_lcg_6_Base df_global_lcg_6_Moderadas asignar_corrida_def
        iteracion_lcg_6 iteracion_lcg_70620)
qed








end
